theory Spec2Isabelle
  imports Main
begin

section \<open>The Windows network-change monitor (wgengine/monitor/monitor_windows.go)\<close>

text \<open>
  The monitor registers two callbacks with the operating system, turns every callback
  into a goroutine that offers one message to a buffered channel of capacity 1, and lets
  a consumer pull the messages with \<open>Receive\<close> until \<open>Close\<close> cancels the context.

  The embedding keeps the shape of the source. The struct \<open>winMon\<close> is a record, an
  \<open>error\<close> result is an \<open>error option\<close> (\<open>None\<close> is Go's \<open>nil\<close>), a pointer that
  may be \<open>nil\<close> is an option, the buffered channel is the list of the messages it holds
  (oldest first), and a \<open>select\<close> statement is a function of the case that the Go
  scheduler picks: it yields \<open>None\<close> when that case cannot proceed, so a \<open>select\<close>
  blocks exactly when every case yields \<open>None\<close>.
\<close>

subsection \<open>Data\<close>

text \<open>\<open>errClosed = errors.New("closed")\<close>; every other error comes out of the operating
  system and is opaque to the monitor.\<close>

datatype error = errClosed | OSError nat

text \<open>\<open>type eventMessage struct { eventType string }\<close>\<close>

record eventMessage =
  eventType :: string

text \<open>\<open>func (eventMessage) ignore() bool { return false }\<close>\<close>

definition ignore :: "eventMessage \<Rightarrow> bool" where
  "ignore msg = False"

text \<open>The two kinds of handle that the registration calls return:
  \<open>*winipcfg.UnicastAddressChangeCallback\<close> and \<open>*winipcfg.RouteChangeCallback\<close>.\<close>

datatype subscription = AddressSub nat | RouteSub nat

text \<open>
  The struct \<open>winMon\<close>. The pair \<open>ctx\<close>/\<open>cancel\<close> is the flag \<open>ctx_done\<close> (whether
  \<open>cancel\<close> has been called, that is, whether \<open>ctx.Done()\<close> is closed and \<open>ctx.Err()\<close>
  is not \<open>nil\<close>); \<open>noDeadlockTicker\<close> is whether the ticker is running. The field
  \<open>logf\<close> is the logger: what it is called with is recorded in the world below.
\<close>

record winMon =
  ctx_done :: bool
  messagec :: "eventMessage list"
  addressChangeCallback :: "subscription option"
  routeChangeCallback :: "subscription option"
  noDeadlockTicker :: bool

text \<open>\<open>make(chan eventMessage, 1)\<close>\<close>

definition messagec_cap :: nat where
  "messagec_cap = 1"

subsection \<open>The world outside the monitor\<close>

text \<open>
  Everything the monitor does to its surroundings, in the order in which it does it.
\<close>

datatype action =
    CallRegisterAddress
  | CallRegisterRoute
  | CallUnregister subscription
  | CallCancel
  | CallTickerStop
  | CallLogf string

text \<open>
  The operating system's side: the subscriptions that are registered at the moment, and
  the record of the monitor's actions.
\<close>

record world =
  registered :: "subscription set"
  effects :: "action list"

definition emit :: "action \<Rightarrow> world \<Rightarrow> world" where
  "emit a w = w\<lparr>effects := effects w @ [a]\<rparr>"

text \<open>
  Modelled from the spec: the notification facility of the operating system (package
  \<open>winipcfg\<close>, which is not part of this repository). The spec treats it as a black box
  that hands out a subscription on registration and releases it on request, where either
  call can fail. The result of each call is therefore an input of the model. A
  registration that succeeds adds the subscription it returns to the registered ones, a
  registration that fails registers nothing; a release that succeeds removes the
  subscription, and a release that fails (``a subscription failed to release'') leaves
  it registered.
\<close>

definition RegisterUnicastAddressChangeCallback ::
    "error + nat \<Rightarrow> world \<Rightarrow> (error + subscription) \<times> world" where
  "RegisterUnicastAddressChangeCallback res w =
     (case res of
        Inl err \<Rightarrow> (Inl err, emit CallRegisterAddress w)
      | Inr h \<Rightarrow>
          (Inr (AddressSub h),
           emit CallRegisterAddress (w\<lparr>registered := insert (AddressSub h) (registered w)\<rparr>)))"

definition RegisterRouteChangeCallback ::
    "error + nat \<Rightarrow> world \<Rightarrow> (error + subscription) \<times> world" where
  "RegisterRouteChangeCallback res w =
     (case res of
        Inl err \<Rightarrow> (Inl err, emit CallRegisterRoute w)
      | Inr h \<Rightarrow>
          (Inr (RouteSub h),
           emit CallRegisterRoute (w\<lparr>registered := insert (RouteSub h) (registered w)\<rparr>)))"

definition Unregister :: "subscription \<Rightarrow> error option \<Rightarrow> world \<Rightarrow> error option \<times> world" where
  "Unregister cb res w =
     (case res of
        None \<Rightarrow> (None, emit (CallUnregister cb) (w\<lparr>registered := registered w - {cb}\<rparr>))
      | Some err \<Rightarrow> (Some err, emit (CallUnregister cb) w))"

subsection \<open>Construction\<close>

text \<open>
  \<open>newOSMon\<close>. The arguments \<open>ra\<close> and \<open>rr\<close> are the results of the two registration
  calls and \<open>ru\<close> is the result of the release in the roll-back branch; a result is
  looked at only if its call is made. The source drops what that release returns.
  The context is created last, so the monitor that is returned has a live context.
\<close>

definition newOSMon ::
    "error + nat \<Rightarrow> error + nat \<Rightarrow> error option \<Rightarrow> world \<Rightarrow> (error + winMon) \<times> world" where
  "newOSMon ra rr ru w =
     (case RegisterUnicastAddressChangeCallback ra w of
        (Inl err, w1) \<Rightarrow>
          (Inl err, emit (CallLogf ''winipcfg.RegisterUnicastAddressChangeCallback error: %v'') w1)
      | (Inr acb, w1) \<Rightarrow>
          (case RegisterRouteChangeCallback rr w1 of
             (Inl err, w2) \<Rightarrow>
               (case Unregister acb ru w2 of
                  (_, w3) \<Rightarrow>
                    (Inl err, emit (CallLogf ''winipcfg.RegisterRouteChangeCallback error: %v'') w3))
           | (Inr rcb, w2) \<Rightarrow>
               (Inr \<lparr>ctx_done = False, messagec = [],
                     addressChangeCallback = Some acb, routeChangeCallback = Some rcb,
                     noDeadlockTicker = True\<rparr>, w2)))"

subsection \<open>Close\<close>

text \<open>
  The two release blocks of \<open>Close\<close>, each working on the named result \<open>ret\<close>, the
  monitor and the world. \<open>res\<close> is what \<open>Unregister\<close> returns if it is called.
\<close>

definition close_address ::
    "error option \<Rightarrow> error option \<times> winMon \<times> world \<Rightarrow> error option \<times> winMon \<times> world" where
  "close_address res st =
     (case st of (ret, m, w) \<Rightarrow>
        (case addressChangeCallback m of
           None \<Rightarrow> (ret, m, w)
         | Some cb \<Rightarrow>
             (case Unregister cb res w of
                (Some err, w1) \<Rightarrow>
                  (Some err, m, emit (CallLogf ''addressChangeCallback.Unregister error: %v'') w1)
              | (None, w1) \<Rightarrow> (ret, m\<lparr>addressChangeCallback := None\<rparr>, w1))))"

definition close_route ::
    "error option \<Rightarrow> error option \<times> winMon \<times> world \<Rightarrow> error option \<times> winMon \<times> world" where
  "close_route res st =
     (case st of (ret, m, w) \<Rightarrow>
        (case routeChangeCallback m of
           None \<Rightarrow> (ret, m, w)
         | Some cb \<Rightarrow>
             (case Unregister cb res w of
                (Some err, w1) \<Rightarrow>
                  (Some err, m, emit (CallLogf ''routeChangeCallback.Unregister error: %v'') w1)
              | (None, w1) \<Rightarrow> (ret, m\<lparr>routeChangeCallback := None\<rparr>, w1))))"

text \<open>
  \<open>func (m *winMon) Close() (ret error)\<close>: \<open>m.cancel()\<close>, \<open>m.noDeadlockTicker.Stop()\<close>,
  then the two release blocks; \<open>ret\<close> starts as \<open>nil\<close>. \<open>ua\<close> and \<open>ur\<close> are the results
  of the two \<open>Unregister\<close> calls.
\<close>

definition Close ::
    "error option \<Rightarrow> error option \<Rightarrow> winMon \<times> world \<Rightarrow> error option \<times> winMon \<times> world" where
  "Close ua ur st =
     (case st of (m, w) \<Rightarrow>
        close_route ur
          (close_address ua
             (None,
              m\<lparr>ctx_done := True, noDeadlockTicker := False\<rparr>,
              emit CallTickerStop (emit CallCancel w))))"

subsection \<open>Receive and the hand-off\<close>

text \<open>
  The case of a \<open>select\<close> statement that the scheduler picks. Both \<open>select\<close>
  statements of the file have one case on the context and one on the channel.
\<close>

datatype select_case = OnCtxDone | OnMessagec

text \<open>
  The \<open>select\<close> of \<open>Receive\<close>: receiving from \<open>messagec\<close> can proceed when the channel
  holds a message, which it takes out; \<open>ctx.Done()\<close> can proceed once the context is
  cancelled.
\<close>

definition Receive_select ::
    "select_case \<Rightarrow> winMon \<times> world \<Rightarrow> ((error + eventMessage) \<times> winMon \<times> world) option" where
  "Receive_select c st =
     (case st of (m, w) \<Rightarrow>
        (case c of
           OnMessagec \<Rightarrow>
             (case messagec m of
                [] \<Rightarrow> None
              | msg # rest \<Rightarrow>
                  Some (Inr msg, m\<lparr>messagec := rest\<rparr>,
                        emit (CallLogf ''got windows change event after %v: evt=%s'') w))
         | OnCtxDone \<Rightarrow> (if ctx_done m then Some (Inl errClosed, m, w) else None)))"

text \<open>
  \<open>Receive\<close> with nothing else running between its test of \<open>ctx.Err()\<close> and its
  \<open>select\<close>. \<open>None\<close> says that the picked case cannot proceed.
\<close>

definition Receive ::
    "select_case \<Rightarrow> winMon \<times> world \<Rightarrow> ((error + eventMessage) \<times> winMon \<times> world) option" where
  "Receive c st =
     (case st of (m, w) \<Rightarrow>
        if ctx_done m
        then Some (Inl errClosed, m, emit (CallLogf ''Receive call on closed monitor'') w)
        else Receive_select c (m, w))"

text \<open>
  \<open>somethingChanged\<close>: sending on \<open>messagec\<close> can proceed while the channel holds fewer
  messages than its capacity; \<open>ctx.Done()\<close> can proceed once the context is cancelled.
  The function has no result, so there is nothing in which it could report an error.
\<close>

definition somethingChanged :: "string \<Rightarrow> select_case \<Rightarrow> winMon \<Rightarrow> winMon option" where
  "somethingChanged evt c m =
     (case c of
        OnCtxDone \<Rightarrow> (if ctx_done m then Some m else None)
      | OnMessagec \<Rightarrow>
          (if length (messagec m) < messagec_cap
           then Some (m\<lparr>messagec := messagec m @ [\<lparr>eventType = evt\<rparr>]\<rparr>)
           else None))"

subsection \<open>The monitor at work\<close>

text \<open>
  The running system: the monitor, the world, the goroutines started by the callbacks
  that have not finished their \<open>select\<close> yet (each with the string it was started with),
  the number of \<open>Receive\<close> calls that have passed the test of \<open>ctx.Err()\<close> and wait in
  their \<open>select\<close>, and what \<open>Receive\<close> has returned so far.
\<close>

record sys =
  mon :: winMon
  wld :: world
  handoffs :: "string list"
  receivers :: nat
  returned :: "(error + eventMessage) list"

text \<open>The callbacks: \<open>go m.somethingChanged("addr")\<close> and \<open>go m.somethingChanged("route")\<close>.\<close>

definition unicastAddressChanged :: "sys \<Rightarrow> sys" where
  "unicastAddressChanged s = s\<lparr>handoffs := handoffs s @ [''addr'']\<rparr>"

definition routeChanged :: "sys \<Rightarrow> sys" where
  "routeChanged s = s\<lparr>handoffs := handoffs s @ [''route'']\<rparr>"

text \<open>
  What can happen next. The operating system calls a callback whose subscription is
  registered; goroutine number \<open>i\<close> finishes its \<open>select\<close> by the given case; a consumer
  calls \<open>Receive\<close>, which returns at once on a cancelled context and waits in its
  \<open>select\<close> otherwise; a waiting \<open>Receive\<close> finishes its \<open>select\<close> by the given case; the
  owner calls \<open>Close\<close>, whose two releases have the given results. A \<open>select\<close> is one
  step, and so is a whole call of \<open>Close\<close>: the schedules are those in which nothing
  runs between the statements of \<open>Close\<close>, which is what its owner is expected to see
  to. An event that cannot happen in a state yields \<open>None\<close>.
\<close>

datatype event =
    FireAddress
  | FireRoute
  | HandOff nat select_case
  | EnterReceive
  | FinishReceive select_case
  | CallClose "error option" "error option"

definition fires :: "subscription option \<Rightarrow> world \<Rightarrow> bool" where
  "fires cb w = (case cb of None \<Rightarrow> False | Some h \<Rightarrow> h \<in> registered w)"

definition step :: "event \<Rightarrow> sys \<Rightarrow> sys option" where
  "step e s =
     (case e of
        FireAddress \<Rightarrow>
          (if fires (addressChangeCallback (mon s)) (wld s)
           then Some (unicastAddressChanged s) else None)
      | FireRoute \<Rightarrow>
          (if fires (routeChangeCallback (mon s)) (wld s)
           then Some (routeChanged s) else None)
      | HandOff i c \<Rightarrow>
          (if i < length (handoffs s)
           then (case somethingChanged (handoffs s ! i) c (mon s) of
                   None \<Rightarrow> None
                 | Some m \<Rightarrow>
                     Some (s\<lparr>mon := m,
                             handoffs := take i (handoffs s) @ drop (Suc i) (handoffs s)\<rparr>))
           else None)
      | EnterReceive \<Rightarrow>
          (if ctx_done (mon s)
           then Some (s\<lparr>wld := emit (CallLogf ''Receive call on closed monitor'') (wld s),
                        returned := returned s @ [Inl errClosed]\<rparr>)
           else Some (s\<lparr>receivers := Suc (receivers s)\<rparr>))
      | FinishReceive c \<Rightarrow>
          (if 0 < receivers s
           then (case Receive_select c (mon s, wld s) of
                   None \<Rightarrow> None
                 | Some (r, m, w) \<Rightarrow>
                     Some (s\<lparr>mon := m, wld := w, receivers := receivers s - 1,
                             returned := returned s @ [r]\<rparr>))
           else None)
      | CallClose ua ur \<Rightarrow>
          (case Close ua ur (mon s, wld s) of
             (ret, m, w) \<Rightarrow> Some (s\<lparr>mon := m, wld := w\<rparr>)))"

text \<open>A schedule is a list of events; it runs as far as every event can happen.\<close>

fun run :: "event list \<Rightarrow> sys \<Rightarrow> sys option" where
  "run [] s = Some s"
| "run (e # es) s = (case step e s of None \<Rightarrow> None | Some s' \<Rightarrow> run es s')"

text \<open>The system right after a successful \<open>newOSMon\<close>.\<close>

definition start :: "winMon \<Rightarrow> world \<Rightarrow> sys" where
  "start m w = \<lparr>mon = m, wld = w, handoffs = [], receivers = 0, returned = []\<rparr>"

subsection \<open>Reading the record of actions\<close>

text \<open>
  The vocabulary of the statements about \<open>Close\<close>, after the words of the specification.
  Releasing a subscription means: nothing if the handle is \<open>nil\<close>, otherwise the call
  of \<open>Unregister\<close>, followed by a line in the log if the call failed.
\<close>

definition release_actions :: "string \<Rightarrow> subscription option \<Rightarrow> error option \<Rightarrow> action list" where
  "release_actions line cb res =
     (case cb of
        None \<Rightarrow> []
      | Some h \<Rightarrow> CallUnregister h # (case res of None \<Rightarrow> [] | Some err \<Rightarrow> [CallLogf line]))"

text \<open>The error that releasing records: none if the handle is \<open>nil\<close>, since nothing is
  attempted then, and otherwise whatever \<open>Unregister\<close> returns.\<close>

definition recorded :: "subscription option \<Rightarrow> error option \<Rightarrow> error option" where
  "recorded cb res = (case cb of None \<Rightarrow> None | Some h \<Rightarrow> res)"

text \<open>The subscriptions on which \<open>Unregister\<close> was called, in the order of the calls.\<close>

fun unregister_calls :: "action list \<Rightarrow> subscription list" where
  "unregister_calls [] = []"
| "unregister_calls (CallUnregister h # as) = h # unregister_calls as"
| "unregister_calls (a # as) = unregister_calls as"

text \<open>The subscription behind a handle whose release was attempted and failed.\<close>

definition retried :: "subscription option \<Rightarrow> error option \<Rightarrow> subscription list" where
  "retried cb res =
     (case cb of None \<Rightarrow> [] | Some h \<Rightarrow> (case res of None \<Rightarrow> [] | Some err \<Rightarrow> [h]))"

subsection \<open>Every message is to be looked at\<close>

text \<open>
  C10: the method \<open>ignore\<close> of \<open>eventMessage\<close> returns false for every value, so no message
  that the monitor hands to its consumer is marked as one to be ignored.
\<close>

theorem ignore_never: "ignore msg = False"
  by (simp add: ignore_def)

subsection \<open>What Close does, spelled out\<close>

lemma close_address_eq:
  "close_address res (ret, m, w) =
     ((case recorded (addressChangeCallback m) res of None \<Rightarrow> ret | Some err \<Rightarrow> Some err),
      m\<lparr>addressChangeCallback :=
          (case recorded (addressChangeCallback m) res of
             None \<Rightarrow> None
           | Some err \<Rightarrow> addressChangeCallback m)\<rparr>,
      w\<lparr>registered :=
          (case addressChangeCallback m of
             None \<Rightarrow> registered w
           | Some h \<Rightarrow> (case res of None \<Rightarrow> registered w - {h} | Some err \<Rightarrow> registered w)),
        effects :=
          effects w @ release_actions ''addressChangeCallback.Unregister error: %v''
                        (addressChangeCallback m) res\<rparr>)"
  by (simp add: close_address_def recorded_def release_actions_def Unregister_def emit_def
      split: option.splits)

lemma close_route_eq:
  "close_route res (ret, m, w) =
     ((case recorded (routeChangeCallback m) res of None \<Rightarrow> ret | Some err \<Rightarrow> Some err),
      m\<lparr>routeChangeCallback :=
          (case recorded (routeChangeCallback m) res of
             None \<Rightarrow> None
           | Some err \<Rightarrow> routeChangeCallback m)\<rparr>,
      w\<lparr>registered :=
          (case routeChangeCallback m of
             None \<Rightarrow> registered w
           | Some h \<Rightarrow> (case res of None \<Rightarrow> registered w - {h} | Some err \<Rightarrow> registered w)),
        effects :=
          effects w @ release_actions ''routeChangeCallback.Unregister error: %v''
                        (routeChangeCallback m) res\<rparr>)"
  by (simp add: close_route_def recorded_def release_actions_def Unregister_def emit_def
      split: option.splits)

lemma Close_ret:
  "fst (Close ua ur (m, w)) =
     (case recorded (routeChangeCallback m) ur of
        Some err \<Rightarrow> Some err
      | None \<Rightarrow> recorded (addressChangeCallback m) ua)"
  by (simp add: Close_def close_address_eq close_route_eq split: option.splits)

lemma Close_effects:
  "effects (snd (snd (Close ua ur (m, w)))) =
     effects w @ [CallCancel, CallTickerStop]
       @ release_actions ''addressChangeCallback.Unregister error: %v'' (addressChangeCallback m) ua
       @ release_actions ''routeChangeCallback.Unregister error: %v'' (routeChangeCallback m) ur"
  by (simp add: Close_def close_address_eq close_route_eq emit_def)

lemma Close_mon:
  "fst (snd (Close ua ur (m, w))) =
     m\<lparr>ctx_done := True, noDeadlockTicker := False,
       addressChangeCallback :=
         (case recorded (addressChangeCallback m) ua of
            None \<Rightarrow> None
          | Some err \<Rightarrow> addressChangeCallback m),
       routeChangeCallback :=
         (case recorded (routeChangeCallback m) ur of
            None \<Rightarrow> None
          | Some err \<Rightarrow> routeChangeCallback m)\<rparr>"
  by (simp add: Close_def close_address_eq close_route_eq split: option.splits)

lemma Close_registered:
  "registered (snd (snd (Close ua ur (m, w)))) =
     (case routeChangeCallback m of
        None \<Rightarrow>
          (case addressChangeCallback m of
             None \<Rightarrow> registered w
           | Some a \<Rightarrow> (case ua of None \<Rightarrow> registered w - {a} | Some err \<Rightarrow> registered w))
      | Some r \<Rightarrow>
          (case ur of
             None \<Rightarrow>
               (case addressChangeCallback m of
                  None \<Rightarrow> registered w
                | Some a \<Rightarrow> (case ua of None \<Rightarrow> registered w - {a} | Some err \<Rightarrow> registered w))
               - {r}
           | Some err \<Rightarrow>
               (case addressChangeCallback m of
                  None \<Rightarrow> registered w
                | Some a \<Rightarrow> (case ua of None \<Rightarrow> registered w - {a} | Some err \<Rightarrow> registered w))))"
  by (simp add: Close_def close_address_eq close_route_eq emit_def split: option.splits)

lemma Close_released:
  "addressChangeCallback m = None \<Longrightarrow> routeChangeCallback m = None \<Longrightarrow>
   ctx_done m \<Longrightarrow> \<not> noDeadlockTicker m \<Longrightarrow>
   Close ua ur (m, w) = (None, m, emit CallTickerStop (emit CallCancel w))"
  by (simp add: Close_def close_address_def close_route_def)

lemma unregister_calls_append:
  "unregister_calls (xs @ ys) = unregister_calls xs @ unregister_calls ys"
  by (induction xs rule: unregister_calls.induct) simp_all

lemma unregister_calls_release:
  "unregister_calls (release_actions line cb res) = (case cb of None \<Rightarrow> [] | Some h \<Rightarrow> [h])"
  by (simp add: release_actions_def split: option.splits)

subsection \<open>The order of the teardown\<close>

text \<open>
  C6: \<open>Close\<close> cancels the context first, then stops the ticker, then releases the
  address subscription, then the route subscription. A release that fails is logged and
  recorded, and the teardown goes on. \<open>Close\<close> returns the error recorded last: that of
  the route release if it was attempted and failed, else that of the address release if
  it was attempted and failed, else \<open>nil\<close>.
\<close>

theorem Close_order:
  "Close ua ur (m, w) = (ret, m', w') \<Longrightarrow>
     effects w' =
       effects w @ [CallCancel, CallTickerStop]
         @ release_actions ''addressChangeCallback.Unregister error: %v''
             (addressChangeCallback m) ua
         @ release_actions ''routeChangeCallback.Unregister error: %v''
             (routeChangeCallback m) ur
     \<and> ret = (case recorded (routeChangeCallback m) ur of
                Some err \<Rightarrow> Some err
              | None \<Rightarrow> recorded (addressChangeCallback m) ua)
     \<and> ctx_done m' \<and> \<not> noDeadlockTicker m'"
  using Close_ret [of ua ur m w] Close_effects [of ua ur m w] Close_mon [of ua ur m w]
  by simp

text \<open>
  The address release fails and the route release succeeds: the route subscription is
  released all the same, after the failure is logged, and the address error is returned.
\<close>

theorem Close_order_witness:
  "Close (Some (OSError 5)) None
     (\<lparr>ctx_done = False, messagec = [], addressChangeCallback = Some (AddressSub 1),
       routeChangeCallback = Some (RouteSub 2), noDeadlockTicker = True\<rparr>,
      \<lparr>registered = {AddressSub 1, RouteSub 2}, effects = []\<rparr>) =
     (Some (OSError 5),
      \<lparr>ctx_done = True, messagec = [], addressChangeCallback = Some (AddressSub 1),
        routeChangeCallback = None, noDeadlockTicker = False\<rparr>,
      \<lparr>registered = {AddressSub 1},
        effects = [CallCancel, CallTickerStop, CallUnregister (AddressSub 1),
                   CallLogf ''addressChangeCallback.Unregister error: %v'',
                   CallUnregister (RouteSub 2)]\<rparr>)
   \<and> [CallCancel, CallTickerStop, CallUnregister (AddressSub 1),
       CallLogf ''addressChangeCallback.Unregister error: %v'', CallUnregister (RouteSub 2)] =
     [] @ [CallCancel, CallTickerStop]
       @ release_actions ''addressChangeCallback.Unregister error: %v''
           (Some (AddressSub 1)) (Some (OSError 5))
       @ release_actions ''routeChangeCallback.Unregister error: %v'' (Some (RouteSub 2)) None
   \<and> Some (OSError 5) =
     (case recorded (Some (RouteSub 2)) None of
        Some err \<Rightarrow> Some err
      | None \<Rightarrow> recorded (Some (AddressSub 1)) (Some (OSError 5)))"
proof -
  have run: "Close (Some (OSError 5)) None
     (\<lparr>ctx_done = False, messagec = [], addressChangeCallback = Some (AddressSub 1),
       routeChangeCallback = Some (RouteSub 2), noDeadlockTicker = True\<rparr>,
      \<lparr>registered = {AddressSub 1, RouteSub 2}, effects = []\<rparr>) =
     (Some (OSError 5),
      \<lparr>ctx_done = True, messagec = [], addressChangeCallback = Some (AddressSub 1),
        routeChangeCallback = None, noDeadlockTicker = False\<rparr>,
      \<lparr>registered = {AddressSub 1},
        effects = [CallCancel, CallTickerStop, CallUnregister (AddressSub 1),
                   CallLogf ''addressChangeCallback.Unregister error: %v'',
                   CallUnregister (RouteSub 2)]\<rparr>)"
    by (simp add: Close_def close_address_def close_route_def Unregister_def emit_def
        insert_Diff_if)
  show ?thesis
    using run Close_order [OF run]
    by (simp add: release_actions_def recorded_def)
qed

subsection \<open>Closing twice\<close>

text \<open>
  C3: \<open>Close\<close> is idempotent. If a call of \<open>Close\<close> returned \<open>nil\<close>, then a second call,
  whatever the operating system would answer, calls \<open>Unregister\<close> on nothing (both
  handles are \<open>nil\<close> and skipped), leaves the monitor and the registered subscriptions as
  they are, and returns \<open>nil\<close>; all it does is call \<open>cancel\<close> and stop the ticker again.
\<close>

theorem Close_idempotent:
  assumes "Close ua ur (m, w) = (None, m1, w1)"
  shows "Close ua' ur' (m1, w1) = (None, m1, emit CallTickerStop (emit CallCancel w1))"
proof -
  from assms have ret: "fst (Close ua ur (m, w)) = None"
    and m1: "m1 = fst (snd (Close ua ur (m, w)))"
    by simp_all
  from ret have r: "recorded (routeChangeCallback m) ur = None"
    and a: "recorded (addressChangeCallback m) ua = None"
    by (simp_all add: Close_ret split: option.splits)
  from m1 r a have "addressChangeCallback m1 = None" "routeChangeCallback m1 = None"
    "ctx_done m1" "\<not> noDeadlockTicker m1"
    by (simp_all add: Close_mon)
  then show ?thesis
    by (rule Close_released)
qed

theorem Close_idempotent_witness:
  "Close None None
     (\<lparr>ctx_done = False, messagec = [], addressChangeCallback = Some (AddressSub 1),
       routeChangeCallback = Some (RouteSub 2), noDeadlockTicker = True\<rparr>,
      \<lparr>registered = {AddressSub 1, RouteSub 2}, effects = []\<rparr>) =
     (None,
      \<lparr>ctx_done = True, messagec = [], addressChangeCallback = None,
        routeChangeCallback = None, noDeadlockTicker = False\<rparr>,
      \<lparr>registered = {},
        effects = [CallCancel, CallTickerStop, CallUnregister (AddressSub 1),
                   CallUnregister (RouteSub 2)]\<rparr>)
   \<and> Close (Some (OSError 3)) (Some (OSError 4))
     (\<lparr>ctx_done = True, messagec = [], addressChangeCallback = None,
        routeChangeCallback = None, noDeadlockTicker = False\<rparr>,
      \<lparr>registered = {},
        effects = [CallCancel, CallTickerStop, CallUnregister (AddressSub 1),
                   CallUnregister (RouteSub 2)]\<rparr>) =
     (None,
      \<lparr>ctx_done = True, messagec = [], addressChangeCallback = None,
        routeChangeCallback = None, noDeadlockTicker = False\<rparr>,
      \<lparr>registered = {},
        effects = [CallCancel, CallTickerStop, CallUnregister (AddressSub 1),
                   CallUnregister (RouteSub 2), CallCancel, CallTickerStop]\<rparr>)"
proof -
  have first: "Close None None
     (\<lparr>ctx_done = False, messagec = [], addressChangeCallback = Some (AddressSub 1),
       routeChangeCallback = Some (RouteSub 2), noDeadlockTicker = True\<rparr>,
      \<lparr>registered = {AddressSub 1, RouteSub 2}, effects = []\<rparr>) =
     (None,
      \<lparr>ctx_done = True, messagec = [], addressChangeCallback = None,
        routeChangeCallback = None, noDeadlockTicker = False\<rparr>,
      \<lparr>registered = {},
        effects = [CallCancel, CallTickerStop, CallUnregister (AddressSub 1),
                   CallUnregister (RouteSub 2)]\<rparr>)"
    by (simp add: Close_def close_address_def close_route_def Unregister_def emit_def)
  show ?thesis
    using first Close_idempotent [OF first, of "Some (OSError 3)" "Some (OSError 4)"]
    by (simp add: emit_def)
qed

subsection \<open>A release that fails is tried again\<close>

text \<open>
  C9: \<open>Close\<close> sets a handle to \<open>nil\<close> only when its \<open>Unregister\<close> call succeeds; a
  handle whose \<open>Unregister\<close> call fails is kept. So the next \<open>Close\<close> calls \<open>Unregister\<close>
  on exactly the subscriptions whose release failed the time before, address first, and
  skips those that were released.
\<close>

theorem Close_keeps_failed:
  assumes "Close ua ur (m, w) = (ret, m1, w1)"
    and "Close ua' ur' (m1, w1) = (ret2, m2, w2)"
  shows "addressChangeCallback m1 =
           (case ua of None \<Rightarrow> None | Some err \<Rightarrow> addressChangeCallback m)
    \<and> routeChangeCallback m1 =
           (case ur of None \<Rightarrow> None | Some err \<Rightarrow> routeChangeCallback m)
    \<and> unregister_calls (effects w2) =
        unregister_calls (effects w1)
          @ retried (addressChangeCallback m) ua @ retried (routeChangeCallback m) ur"
proof -
  from assms(1) have m1: "m1 = fst (snd (Close ua ur (m, w)))"
    by simp
  have a: "addressChangeCallback m1 =
      (case ua of None \<Rightarrow> None | Some err \<Rightarrow> addressChangeCallback m)"
    by (simp add: m1 Close_mon recorded_def split: option.splits)
  have r: "routeChangeCallback m1 =
      (case ur of None \<Rightarrow> None | Some err \<Rightarrow> routeChangeCallback m)"
    by (simp add: m1 Close_mon recorded_def split: option.splits)
  from assms(2) have "effects w2 = effects (snd (snd (Close ua' ur' (m1, w1))))"
    by simp
  then have "unregister_calls (effects w2) =
      unregister_calls (effects w1)
        @ (case addressChangeCallback m1 of None \<Rightarrow> [] | Some h \<Rightarrow> [h])
        @ (case routeChangeCallback m1 of None \<Rightarrow> [] | Some h \<Rightarrow> [h])"
    by (simp add: Close_effects unregister_calls_append unregister_calls_release)
  with a r show ?thesis
    by (simp add: retried_def split: option.splits)
qed

text \<open>
  The first \<open>Close\<close> fails to release the address subscription and releases the route
  subscription; the second one calls \<open>Unregister\<close> on the address subscription only.
\<close>

theorem Close_keeps_failed_witness:
  "Close (Some (OSError 5)) None
     (\<lparr>ctx_done = False, messagec = [], addressChangeCallback = Some (AddressSub 1),
       routeChangeCallback = Some (RouteSub 2), noDeadlockTicker = True\<rparr>,
      \<lparr>registered = {AddressSub 1, RouteSub 2}, effects = []\<rparr>) =
     (Some (OSError 5),
      \<lparr>ctx_done = True, messagec = [], addressChangeCallback = Some (AddressSub 1),
        routeChangeCallback = None, noDeadlockTicker = False\<rparr>,
      \<lparr>registered = {AddressSub 1},
        effects = [CallCancel, CallTickerStop, CallUnregister (AddressSub 1),
                   CallLogf ''addressChangeCallback.Unregister error: %v'',
                   CallUnregister (RouteSub 2)]\<rparr>)
   \<and> Close None None
     (\<lparr>ctx_done = True, messagec = [], addressChangeCallback = Some (AddressSub 1),
        routeChangeCallback = None, noDeadlockTicker = False\<rparr>,
      \<lparr>registered = {AddressSub 1},
        effects = [CallCancel, CallTickerStop, CallUnregister (AddressSub 1),
                   CallLogf ''addressChangeCallback.Unregister error: %v'',
                   CallUnregister (RouteSub 2)]\<rparr>) =
     (None,
      \<lparr>ctx_done = True, messagec = [], addressChangeCallback = None,
        routeChangeCallback = None, noDeadlockTicker = False\<rparr>,
      \<lparr>registered = {},
        effects = [CallCancel, CallTickerStop, CallUnregister (AddressSub 1),
                   CallLogf ''addressChangeCallback.Unregister error: %v'',
                   CallUnregister (RouteSub 2),
                   CallCancel, CallTickerStop, CallUnregister (AddressSub 1)]\<rparr>)
   \<and> unregister_calls
       [CallCancel, CallTickerStop, CallUnregister (AddressSub 1),
        CallLogf ''addressChangeCallback.Unregister error: %v'', CallUnregister (RouteSub 2),
        CallCancel, CallTickerStop, CallUnregister (AddressSub 1)] =
     unregister_calls
       [CallCancel, CallTickerStop, CallUnregister (AddressSub 1),
        CallLogf ''addressChangeCallback.Unregister error: %v'', CallUnregister (RouteSub 2)]
       @ [AddressSub 1]"
proof -
  have first: "Close (Some (OSError 5)) None
     (\<lparr>ctx_done = False, messagec = [], addressChangeCallback = Some (AddressSub 1),
       routeChangeCallback = Some (RouteSub 2), noDeadlockTicker = True\<rparr>,
      \<lparr>registered = {AddressSub 1, RouteSub 2}, effects = []\<rparr>) =
     (Some (OSError 5),
      \<lparr>ctx_done = True, messagec = [], addressChangeCallback = Some (AddressSub 1),
        routeChangeCallback = None, noDeadlockTicker = False\<rparr>,
      \<lparr>registered = {AddressSub 1},
        effects = [CallCancel, CallTickerStop, CallUnregister (AddressSub 1),
                   CallLogf ''addressChangeCallback.Unregister error: %v'',
                   CallUnregister (RouteSub 2)]\<rparr>)"
    by (simp add: Close_def close_address_def close_route_def Unregister_def emit_def
        insert_Diff_if)
  have second: "Close None None
     (\<lparr>ctx_done = True, messagec = [], addressChangeCallback = Some (AddressSub 1),
        routeChangeCallback = None, noDeadlockTicker = False\<rparr>,
      \<lparr>registered = {AddressSub 1},
        effects = [CallCancel, CallTickerStop, CallUnregister (AddressSub 1),
                   CallLogf ''addressChangeCallback.Unregister error: %v'',
                   CallUnregister (RouteSub 2)]\<rparr>) =
     (None,
      \<lparr>ctx_done = True, messagec = [], addressChangeCallback = None,
        routeChangeCallback = None, noDeadlockTicker = False\<rparr>,
      \<lparr>registered = {},
        effects = [CallCancel, CallTickerStop, CallUnregister (AddressSub 1),
                   CallLogf ''addressChangeCallback.Unregister error: %v'',
                   CallUnregister (RouteSub 2),
                   CallCancel, CallTickerStop, CallUnregister (AddressSub 1)]\<rparr>)"
    by (simp add: Close_def close_address_def close_route_def Unregister_def emit_def)
  show ?thesis
    using first second Close_keeps_failed [OF first second]
    by (simp add: retried_def)
qed

subsection \<open>What stays registered after Close\<close>

text \<open>
  C4, as stated, fails: when an \<open>Unregister\<close> call fails, \<open>Close\<close> logs the error, keeps
  the handle and returns, and the subscription is still registered. Here the monitor is
  the one that \<open>newOSMon\<close> builds from the handles 1 and 2, the address release fails with
  an error of the operating system, and the address subscription is registered when
  \<open>Close\<close> has returned.
\<close>

theorem Close_failed_release_stays_registered:
  "newOSMon (Inr 1) (Inr 2) None \<lparr>registered = {}, effects = []\<rparr> =
     (Inr \<lparr>ctx_done = False, messagec = [], addressChangeCallback = Some (AddressSub 1),
           routeChangeCallback = Some (RouteSub 2), noDeadlockTicker = True\<rparr>,
      \<lparr>registered = {AddressSub 1, RouteSub 2},
        effects = [CallRegisterAddress, CallRegisterRoute]\<rparr>)
   \<and> Close (Some (OSError 5)) None
     (\<lparr>ctx_done = False, messagec = [], addressChangeCallback = Some (AddressSub 1),
       routeChangeCallback = Some (RouteSub 2), noDeadlockTicker = True\<rparr>,
      \<lparr>registered = {AddressSub 1, RouteSub 2},
        effects = [CallRegisterAddress, CallRegisterRoute]\<rparr>) =
     (Some (OSError 5),
      \<lparr>ctx_done = True, messagec = [], addressChangeCallback = Some (AddressSub 1),
        routeChangeCallback = None, noDeadlockTicker = False\<rparr>,
      \<lparr>registered = {AddressSub 1},
        effects = [CallRegisterAddress, CallRegisterRoute, CallCancel, CallTickerStop,
                   CallUnregister (AddressSub 1),
                   CallLogf ''addressChangeCallback.Unregister error: %v'',
                   CallUnregister (RouteSub 2)]\<rparr>)
   \<and> AddressSub 1 \<in> registered (snd (snd (Close (Some (OSError 5)) None
     (\<lparr>ctx_done = False, messagec = [], addressChangeCallback = Some (AddressSub 1),
       routeChangeCallback = Some (RouteSub 2), noDeadlockTicker = True\<rparr>,
      \<lparr>registered = {AddressSub 1, RouteSub 2},
        effects = [CallRegisterAddress, CallRegisterRoute]\<rparr>))))"
  by (simp add: newOSMon_def RegisterUnicastAddressChangeCallback_def
      RegisterRouteChangeCallback_def Close_def close_address_def close_route_def
      Unregister_def emit_def insert_Diff_if insert_commute)

text \<open>
  C4, amended: when \<open>Close\<close> has returned, a subscription whose \<open>Unregister\<close> call
  succeeded is not registered any more and its handle is \<open>nil\<close>; if \<open>Close\<close> reports no
  error, then no subscription that the monitor held is registered and both handles are
  \<open>nil\<close>. \<open>Close\<close> registers nothing.
\<close>

theorem Close_unregisters_released:
  assumes "Close ua ur (m, w) = (ret, m1, w1)"
  shows "(addressChangeCallback m = Some a \<and> ua = None \<longrightarrow>
            a \<notin> registered w1 \<and> addressChangeCallback m1 = None)
    \<and> (routeChangeCallback m = Some r \<and> ur = None \<longrightarrow>
            r \<notin> registered w1 \<and> routeChangeCallback m1 = None)
    \<and> (ret = None \<and> (addressChangeCallback m = Some h \<or> routeChangeCallback m = Some h) \<longrightarrow>
            h \<notin> registered w1)
    \<and> (ret = None \<longrightarrow> addressChangeCallback m1 = None \<and> routeChangeCallback m1 = None)
    \<and> registered w1 \<subseteq> registered w"
proof -
  from assms have ret: "ret = fst (Close ua ur (m, w))"
    and m1: "m1 = fst (snd (Close ua ur (m, w)))"
    and w1: "w1 = snd (snd (Close ua ur (m, w)))"
    by simp_all
  show ?thesis
    by (auto simp add: ret m1 w1 Close_ret Close_mon Close_registered recorded_def
        split: option.splits)
qed

theorem Close_unregisters_released_witness:
  "Close None None
     (\<lparr>ctx_done = False, messagec = [], addressChangeCallback = Some (AddressSub 1),
       routeChangeCallback = Some (RouteSub 2), noDeadlockTicker = True\<rparr>,
      \<lparr>registered = {AddressSub 1, RouteSub 2}, effects = []\<rparr>) =
     (None,
      \<lparr>ctx_done = True, messagec = [], addressChangeCallback = None,
        routeChangeCallback = None, noDeadlockTicker = False\<rparr>,
      \<lparr>registered = {},
        effects = [CallCancel, CallTickerStop, CallUnregister (AddressSub 1),
                   CallUnregister (RouteSub 2)]\<rparr>)
   \<and> AddressSub 1 \<notin> ({} :: subscription set) \<and> RouteSub 2 \<notin> ({} :: subscription set)"
proof -
  have first: "Close None None
     (\<lparr>ctx_done = False, messagec = [], addressChangeCallback = Some (AddressSub 1),
       routeChangeCallback = Some (RouteSub 2), noDeadlockTicker = True\<rparr>,
      \<lparr>registered = {AddressSub 1, RouteSub 2}, effects = []\<rparr>) =
     (None,
      \<lparr>ctx_done = True, messagec = [], addressChangeCallback = None,
        routeChangeCallback = None, noDeadlockTicker = False\<rparr>,
      \<lparr>registered = {},
        effects = [CallCancel, CallTickerStop, CallUnregister (AddressSub 1),
                   CallUnregister (RouteSub 2)]\<rparr>)"
    by (simp add: Close_def close_address_def close_route_def Unregister_def emit_def)
  show ?thesis
    using first
      Close_unregisters_released [OF first, of "AddressSub 1" "RouteSub 2" "AddressSub 1"]
    by simp
qed

subsection \<open>Construction and its failures\<close>

lemma newOSMon_address_fails:
  "newOSMon (Inl err) rr ru w =
     (Inl err, w\<lparr>effects := effects w @ [CallRegisterAddress,
        CallLogf ''winipcfg.RegisterUnicastAddressChangeCallback error: %v'']\<rparr>)"
  by (simp add: newOSMon_def RegisterUnicastAddressChangeCallback_def emit_def)

lemma newOSMon_route_fails:
  "newOSMon (Inr h) (Inl err) ru w =
     (Inl err,
      w\<lparr>registered := (case ru of None \<Rightarrow> insert (AddressSub h) (registered w) - {AddressSub h}
                         | Some e \<Rightarrow> insert (AddressSub h) (registered w)),
        effects := effects w @ [CallRegisterAddress, CallRegisterRoute,
          CallUnregister (AddressSub h),
          CallLogf ''winipcfg.RegisterRouteChangeCallback error: %v'']\<rparr>)"
  by (simp add: newOSMon_def RegisterUnicastAddressChangeCallback_def
      RegisterRouteChangeCallback_def Unregister_def emit_def split: option.splits)

lemma newOSMon_succeeds:
  "newOSMon (Inr h) (Inr k) ru w =
     (Inr \<lparr>ctx_done = False, messagec = [], addressChangeCallback = Some (AddressSub h),
           routeChangeCallback = Some (RouteSub k), noDeadlockTicker = True\<rparr>,
      w\<lparr>registered := insert (RouteSub k) (insert (AddressSub h) (registered w)),
        effects := effects w @ [CallRegisterAddress, CallRegisterRoute]\<rparr>)"
  by (simp add: newOSMon_def RegisterUnicastAddressChangeCallback_def
      RegisterRouteChangeCallback_def emit_def)


text \<open>
  C2, as stated, fails: in the roll-back branch \<open>newOSMon\<close> calls \<open>Unregister\<close> on the
  address subscription and drops what the call returns. When that release fails, the
  construction returns the error of the route registration and the address subscription
  is still registered.
\<close>

theorem newOSMon_rollback_fails:
  "newOSMon (Inr 1) (Inl (OSError 7)) (Some (OSError 9)) \<lparr>registered = {}, effects = []\<rparr> =
     (Inl (OSError 7),
      \<lparr>registered = {AddressSub 1},
        effects = [CallRegisterAddress, CallRegisterRoute, CallUnregister (AddressSub 1),
                   CallLogf ''winipcfg.RegisterRouteChangeCallback error: %v'']\<rparr>)
   \<and> AddressSub 1 \<in> registered (snd (newOSMon (Inr 1) (Inl (OSError 7)) (Some (OSError 9))
         \<lparr>registered = {}, effects = []\<rparr>))"
  by (simp add: newOSMon_route_fails)

text \<open>
  C2, amended: if the address registration fails, \<open>newOSMon\<close> returns that error, calls
  \<open>Unregister\<close> on nothing and leaves the registered subscriptions as they were. If the
  route registration fails after the address registration succeeded, \<open>newOSMon\<close> calls
  \<open>Unregister\<close> on the address subscription before it logs and returns the route error;
  if that release succeeds, the address subscription is not registered afterwards and
  nothing is registered that was not before. \<open>newOSMon\<close> fails exactly when one of the two
  registrations fails, and then it returns no monitor.
\<close>

theorem newOSMon_failure:
  "(ra = Inl err \<longrightarrow>
      fst (newOSMon ra rr ru w) = Inl err
      \<and> registered (snd (newOSMon ra rr ru w)) = registered w
      \<and> unregister_calls (effects (snd (newOSMon ra rr ru w))) = unregister_calls (effects w))
   \<and> (ra = Inr h \<and> rr = Inl err \<longrightarrow>
      fst (newOSMon ra rr ru w) = Inl err
      \<and> effects (snd (newOSMon ra rr ru w)) =
          effects w @ [CallRegisterAddress, CallRegisterRoute, CallUnregister (AddressSub h),
                       CallLogf ''winipcfg.RegisterRouteChangeCallback error: %v''])
   \<and> (ra = Inr h \<and> rr = Inl err \<and> ru = None \<longrightarrow>
      AddressSub h \<notin> registered (snd (newOSMon ra rr ru w))
      \<and> registered (snd (newOSMon ra rr ru w)) \<subseteq> registered w)
   \<and> ((\<exists>e. fst (newOSMon ra rr ru w) = Inl e) \<longleftrightarrow> (\<exists>e. ra = Inl e \<or> rr = Inl e))"
  apply (cases ra; cases rr)
  apply (auto simp add: newOSMon_address_fails newOSMon_route_fails newOSMon_succeeds unregister_calls_append)
  done

theorem newOSMon_failure_witness:
  "fst (newOSMon (Inl (OSError 3)) (Inr 2) None \<lparr>registered = {}, effects = []\<rparr>) =
     Inl (OSError 3)
   \<and> registered (snd (newOSMon (Inl (OSError 3)) (Inr 2) None \<lparr>registered = {}, effects = []\<rparr>))
       = {}
   \<and> fst (newOSMon (Inr 1) (Inl (OSError 7)) None \<lparr>registered = {}, effects = []\<rparr>) =
     Inl (OSError 7)
   \<and> effects (snd (newOSMon (Inr 1) (Inl (OSError 7)) None \<lparr>registered = {}, effects = []\<rparr>)) =
     [CallRegisterAddress, CallRegisterRoute, CallUnregister (AddressSub 1),
      CallLogf ''winipcfg.RegisterRouteChangeCallback error: %v'']
   \<and> registered (snd (newOSMon (Inr 1) (Inl (OSError 7)) None \<lparr>registered = {}, effects = []\<rparr>))
       = {}"
  using newOSMon_failure [where ra = "Inl (OSError 3)" and err = "OSError 3" and rr = "Inr 2"
      and ru = None and w = "\<lparr>registered = {}, effects = []\<rparr>"]
    newOSMon_failure [where ra = "Inr 1" and h = 1 and err = "OSError 7"
      and rr = "Inl (OSError 7)" and ru = None and w = "\<lparr>registered = {}, effects = []\<rparr>"]
  by simp

subsection \<open>Receive\<close>

lemma Receive_select_cases:
  "Receive_select OnMessagec (m, w) =
     (case messagec m of
        [] \<Rightarrow> None
      | msg # rest \<Rightarrow>
          Some (Inr msg, m\<lparr>messagec := rest\<rparr>,
                emit (CallLogf ''got windows change event after %v: evt=%s'') w))"
  "Receive_select OnCtxDone (m, w) = (if ctx_done m then Some (Inl errClosed, m, w) else None)"
  by (simp_all add: Receive_select_def)

text \<open>
  C1: on a monitor whose context is cancelled already, \<open>Receive\<close> returns the closed
  error at once, whatever the channel holds and whatever the scheduler would pick.
  Otherwise it goes into its \<open>select\<close>, which blocks exactly while the channel is empty
  and the context is live; it finishes either by taking the oldest message out of the
  channel and returning it with no error, or, once the context is cancelled, by returning
  the closed error with the monitor untouched; and it finishes in no other way.
\<close>

theorem Receive_contract:
  "(ctx_done m \<longrightarrow>
      Receive c (m, w) =
        Some (Inl errClosed, m, emit (CallLogf ''Receive call on closed monitor'') w))
   \<and> (\<not> ctx_done m \<longrightarrow> Receive c (m, w) = Receive_select c (m, w))
   \<and> ((Receive_select OnMessagec (m, w) = None \<and> Receive_select OnCtxDone (m, w) = None)
        \<longleftrightarrow> (messagec m = [] \<and> \<not> ctx_done m))
   \<and> (messagec m = msg # rest \<longrightarrow>
        Receive_select OnMessagec (m, w) =
          Some (Inr msg, m\<lparr>messagec := rest\<rparr>,
                emit (CallLogf ''got windows change event after %v: evt=%s'') w))
   \<and> (ctx_done m \<longrightarrow> Receive_select OnCtxDone (m, w) = Some (Inl errClosed, m, w))
   \<and> (Receive_select c (m, w) = Some (r, m', w') \<longrightarrow>
        (c = OnMessagec
           \<and> (\<exists>first others. messagec m = first # others \<and> r = Inr first
                 \<and> m' = m\<lparr>messagec := others\<rparr>))
        \<or> (c = OnCtxDone \<and> ctx_done m \<and> r = Inl errClosed \<and> m' = m \<and> w' = w))"
proof -
  have enter: "ctx_done m \<longrightarrow>
      Receive c (m, w) =
        Some (Inl errClosed, m, emit (CallLogf ''Receive call on closed monitor'') w)"
    and wait: "\<not> ctx_done m \<longrightarrow> Receive c (m, w) = Receive_select c (m, w)"
    by (simp_all add: Receive_def)
  have blocks: "(Receive_select OnMessagec (m, w) = None \<and> Receive_select OnCtxDone (m, w) = None)
        \<longleftrightarrow> (messagec m = [] \<and> \<not> ctx_done m)"
    by (cases "messagec m") (simp_all add: Receive_select_cases)
  have takes: "messagec m = msg # rest \<longrightarrow>
        Receive_select OnMessagec (m, w) =
          Some (Inr msg, m\<lparr>messagec := rest\<rparr>,
                emit (CallLogf ''got windows change event after %v: evt=%s'') w)"
    by (simp add: Receive_select_cases)
  have closed: "ctx_done m \<longrightarrow> Receive_select OnCtxDone (m, w) = Some (Inl errClosed, m, w)"
    by (simp add: Receive_select_cases)
  have only: "Receive_select c (m, w) = Some (r, m', w') \<longrightarrow>
        (c = OnMessagec
           \<and> (\<exists>first others. messagec m = first # others \<and> r = Inr first
                 \<and> m' = m\<lparr>messagec := others\<rparr>))
        \<or> (c = OnCtxDone \<and> ctx_done m \<and> r = Inl errClosed \<and> m' = m \<and> w' = w)"
  proof (cases c)
    case OnCtxDone
    then show ?thesis
      by (auto simp add: Receive_select_cases split: if_splits)
  next
    case OnMessagec
    then show ?thesis
      by (cases "messagec m") (auto simp add: Receive_select_cases)
  qed
  from enter wait blocks takes closed only show ?thesis
    by blast
qed

theorem Receive_contract_witness:
  "Receive OnMessagec
     (\<lparr>ctx_done = True, messagec = [\<lparr>eventType = ''addr''\<rparr>],
       addressChangeCallback = None, routeChangeCallback = None, noDeadlockTicker = False\<rparr>,
      \<lparr>registered = {}, effects = []\<rparr>) =
     Some (Inl errClosed,
       \<lparr>ctx_done = True, messagec = [\<lparr>eventType = ''addr''\<rparr>],
         addressChangeCallback = None, routeChangeCallback = None, noDeadlockTicker = False\<rparr>,
       \<lparr>registered = {}, effects = [CallLogf ''Receive call on closed monitor'']\<rparr>)
   \<and> Receive OnMessagec
     (\<lparr>ctx_done = False, messagec = [\<lparr>eventType = ''route''\<rparr>],
       addressChangeCallback = Some (AddressSub 1), routeChangeCallback = Some (RouteSub 2),
       noDeadlockTicker = True\<rparr>,
      \<lparr>registered = {AddressSub 1, RouteSub 2}, effects = []\<rparr>) =
     Some (Inr \<lparr>eventType = ''route''\<rparr>,
       \<lparr>ctx_done = False, messagec = [],
         addressChangeCallback = Some (AddressSub 1), routeChangeCallback = Some (RouteSub 2),
         noDeadlockTicker = True\<rparr>,
       \<lparr>registered = {AddressSub 1, RouteSub 2},
         effects = [CallLogf ''got windows change event after %v: evt=%s'']\<rparr>)"
proof -
  have closed: "ctx_done
       \<lparr>ctx_done = True, messagec = [\<lparr>eventType = ''addr''\<rparr>],
         addressChangeCallback = None, routeChangeCallback = None, noDeadlockTicker = False\<rparr>"
    by simp
  have live: "\<not> ctx_done
       \<lparr>ctx_done = False, messagec = [\<lparr>eventType = ''route''\<rparr>],
         addressChangeCallback = Some (AddressSub 1), routeChangeCallback = Some (RouteSub 2),
         noDeadlockTicker = True\<rparr>"
    by simp
  have holds: "messagec
       \<lparr>ctx_done = False, messagec = [\<lparr>eventType = ''route''\<rparr>],
         addressChangeCallback = Some (AddressSub 1), routeChangeCallback = Some (RouteSub 2),
         noDeadlockTicker = True\<rparr> = [\<lparr>eventType = ''route''\<rparr>]"
    by simp
  note at_once = Receive_contract [THEN conjunct1, rule_format, OF closed]
  note waits = Receive_contract [THEN conjunct2, THEN conjunct1, rule_format, OF live]
  note takes = Receive_contract [THEN conjunct2, THEN conjunct2, THEN conjunct2,
      THEN conjunct1, rule_format, OF holds]
  show ?thesis
    using at_once waits takes
    by (simp add: emit_def)
qed

subsection \<open>What every step keeps\<close>

lemma somethingChanged_cases:
  "somethingChanged evt OnCtxDone m = (if ctx_done m then Some m else None)"
  "somethingChanged evt OnMessagec m =
     (if length (messagec m) < messagec_cap
      then Some (m\<lparr>messagec := messagec m @ [\<lparr>eventType = evt\<rparr>]\<rparr>)
      else None)"
  by (simp_all add: somethingChanged_def)


lemma somethingChanged_ctx:
  "somethingChanged evt c m = Some m' \<Longrightarrow> ctx_done m' = ctx_done m"
  by (cases c) (auto simp add: somethingChanged_cases split: if_splits)


lemma Receive_select_ctx:
  "Receive_select c (m, w) = Some (r, m', w') \<Longrightarrow> ctx_done m' = ctx_done m"
  by (cases c) (auto simp add: Receive_select_cases split: if_splits list.splits)


lemma Close_ctx_done: "ctx_done (fst (snd (Close ua ur (m, w))))"
  by (simp add: Close_mon)


lemma step_ctx_done:
  assumes "step e s = Some s'" and "ctx_done (mon s)"
  shows "ctx_done (mon s')"
proof (cases e)
  case FireAddress
  with assms show ?thesis
    by (auto simp add: step_def unicastAddressChanged_def split: if_splits)
next
  case FireRoute
  with assms show ?thesis
    by (auto simp add: step_def routeChanged_def split: if_splits)
next
  case (HandOff i c)
  with assms show ?thesis
    by (auto simp add: step_def split: if_splits option.splits dest: somethingChanged_ctx)
next
  case EnterReceive
  with assms show ?thesis
    by (auto simp add: step_def split: if_splits)
next
  case (FinishReceive c)
  with assms show ?thesis
    by (auto simp add: step_def split: if_splits option.splits dest: Receive_select_ctx)
next
  case (CallClose ua ur)
  with assms Close_ctx_done [of ua ur "mon s" "wld s"] show ?thesis
    by (auto simp add: step_def split: prod.splits)
qed


lemma run_ctx_done:
  "run es s = Some s' \<Longrightarrow> ctx_done (mon s) \<Longrightarrow> ctx_done (mon s')"
proof (induction es arbitrary: s)
  case Nil
  then show ?case by simp
next
  case (Cons e es)
  then show ?case
    by (auto split: option.splits dest: step_ctx_done)
qed


lemma step_EnterReceive_closed:
  "ctx_done (mon s) \<Longrightarrow>
   step EnterReceive s =
     Some (s\<lparr>wld := emit (CallLogf ''Receive call on closed monitor'') (wld s),
             returned := returned s @ [Inl errClosed]\<rparr>)"
  by (simp add: step_def)

lemma step_HandOff_closed:
  "ctx_done (mon s) \<Longrightarrow> i < length (handoffs s) \<Longrightarrow>
   step (HandOff i OnCtxDone) s =
     Some (s\<lparr>mon := mon s, handoffs := take i (handoffs s) @ drop (Suc i) (handoffs s)\<rparr>)"
  by (simp add: step_def somethingChanged_cases)

lemma step_FinishReceive_closed:
  "ctx_done (mon s) \<Longrightarrow> 0 < receivers s \<Longrightarrow>
   step (FinishReceive OnCtxDone) s =
     Some (s\<lparr>mon := mon s, wld := wld s, receivers := receivers s - 1,
             returned := returned s @ [Inl errClosed]\<rparr>)"
  by (simp add: step_def Receive_select_cases)





subsection \<open>The single slot\<close>



subsection \<open>After the context is cancelled\<close>

text \<open>
  C5, as stated, fails: a \<open>select\<close> picks any case that can proceed, and after \<open>Close\<close>
  the channel case can still proceed. The monitor is the one that \<open>newOSMon\<close> builds from
  the handles 1 and 2. First schedule: the address callback starts its goroutine, \<open>Close\<close>
  runs to its end, then the goroutine's \<open>select\<close> takes the send, and the message is in
  the channel of a closed monitor. Second schedule: a \<open>Receive\<close> has passed its test of
  \<open>ctx.Err()\<close> before all that, and its \<open>select\<close> then takes the message and returns
  it.
\<close>

theorem enqueue_after_close:
  "run [FireAddress, CallClose None None]
     (start \<lparr>ctx_done = False, messagec = [], addressChangeCallback = Some (AddressSub 1),
             routeChangeCallback = Some (RouteSub 2), noDeadlockTicker = True\<rparr>
        \<lparr>registered = {AddressSub 1, RouteSub 2},
          effects = [CallRegisterAddress, CallRegisterRoute]\<rparr>) =
     Some \<lparr>mon = \<lparr>ctx_done = True, messagec = [], addressChangeCallback = None,
                  routeChangeCallback = None, noDeadlockTicker = False\<rparr>,
           wld = \<lparr>registered = {},
                  effects = [CallRegisterAddress, CallRegisterRoute, CallCancel,
                             CallTickerStop, CallUnregister (AddressSub 1),
                             CallUnregister (RouteSub 2)]\<rparr>,
           handoffs = [''addr''], receivers = 0, returned = []\<rparr>
   \<and> run [FireAddress, CallClose None None, HandOff 0 OnMessagec]
     (start \<lparr>ctx_done = False, messagec = [], addressChangeCallback = Some (AddressSub 1),
             routeChangeCallback = Some (RouteSub 2), noDeadlockTicker = True\<rparr>
        \<lparr>registered = {AddressSub 1, RouteSub 2},
          effects = [CallRegisterAddress, CallRegisterRoute]\<rparr>) =
     Some \<lparr>mon = \<lparr>ctx_done = True, messagec = [\<lparr>eventType = ''addr''\<rparr>],
                  addressChangeCallback = None, routeChangeCallback = None,
                  noDeadlockTicker = False\<rparr>,
           wld = \<lparr>registered = {},
                  effects = [CallRegisterAddress, CallRegisterRoute, CallCancel,
                             CallTickerStop, CallUnregister (AddressSub 1),
                             CallUnregister (RouteSub 2)]\<rparr>,
           handoffs = [], receivers = 0, returned = []\<rparr>
   \<and> run [EnterReceive, FireAddress, CallClose None None, HandOff 0 OnMessagec,
          FinishReceive OnMessagec]
     (start \<lparr>ctx_done = False, messagec = [], addressChangeCallback = Some (AddressSub 1),
             routeChangeCallback = Some (RouteSub 2), noDeadlockTicker = True\<rparr>
        \<lparr>registered = {AddressSub 1, RouteSub 2},
          effects = [CallRegisterAddress, CallRegisterRoute]\<rparr>) =
     Some \<lparr>mon = \<lparr>ctx_done = True, messagec = [], addressChangeCallback = None,
                  routeChangeCallback = None, noDeadlockTicker = False\<rparr>,
           wld = \<lparr>registered = {},
                  effects = [CallRegisterAddress, CallRegisterRoute, CallCancel,
                             CallTickerStop, CallUnregister (AddressSub 1),
                             CallUnregister (RouteSub 2),
                             CallLogf ''got windows change event after %v: evt=%s'']\<rparr>,
           handoffs = [], receivers = 0, returned = [Inr \<lparr>eventType = ''addr''\<rparr>]\<rparr>"
  by (simp add: start_def step_def fires_def unicastAddressChanged_def Close_def
      close_address_def close_route_def Unregister_def emit_def somethingChanged_def
      messagec_cap_def Receive_select_def)

text \<open>
  C5, amended: once the context is cancelled it stays cancelled, whatever happens next.
  From then on every call of \<open>Receive\<close> returns the closed error at once, without
  touching the channel; every hand-off in flight can leave through the context case,
  which leaves the channel as it is; and every \<open>Receive\<close> in flight can finish through
  the context case with the closed error. So nothing stays blocked, and no \<open>Receive\<close>
  that starts after the cancellation returns a message.
\<close>

theorem closed_receive_and_handoff:
  assumes "ctx_done (mon s)"
  shows "(run es s = Some s' \<longrightarrow> ctx_done (mon s'))
    \<and> step EnterReceive s =
        Some (s\<lparr>wld := emit (CallLogf ''Receive call on closed monitor'') (wld s),
                returned := returned s @ [Inl errClosed]\<rparr>)
    \<and> (i < length (handoffs s) \<longrightarrow>
        step (HandOff i OnCtxDone) s =
          Some (s\<lparr>mon := mon s, handoffs := take i (handoffs s) @ drop (Suc i) (handoffs s)\<rparr>))
    \<and> (0 < receivers s \<longrightarrow>
        step (FinishReceive OnCtxDone) s =
          Some (s\<lparr>mon := mon s, wld := wld s, receivers := receivers s - 1,
                  returned := returned s @ [Inl errClosed]\<rparr>))"
  using assms
  by (auto simp add: step_EnterReceive_closed step_HandOff_closed step_FinishReceive_closed
      dest: run_ctx_done)

theorem closed_receive_and_handoff_witness:
  "step EnterReceive
     \<lparr>mon = \<lparr>ctx_done = True, messagec = [\<lparr>eventType = ''addr''\<rparr>],
              addressChangeCallback = None, routeChangeCallback = None,
              noDeadlockTicker = False\<rparr>,
       wld = \<lparr>registered = {}, effects = []\<rparr>,
       handoffs = [''route''], receivers = 1, returned = []\<rparr> =
     Some \<lparr>mon = \<lparr>ctx_done = True, messagec = [\<lparr>eventType = ''addr''\<rparr>],
              addressChangeCallback = None, routeChangeCallback = None,
              noDeadlockTicker = False\<rparr>,
       wld = \<lparr>registered = {}, effects = [CallLogf ''Receive call on closed monitor'']\<rparr>,
       handoffs = [''route''], receivers = 1, returned = [Inl errClosed]\<rparr>
   \<and> step (HandOff 0 OnCtxDone)
     \<lparr>mon = \<lparr>ctx_done = True, messagec = [\<lparr>eventType = ''addr''\<rparr>],
              addressChangeCallback = None, routeChangeCallback = None,
              noDeadlockTicker = False\<rparr>,
       wld = \<lparr>registered = {}, effects = []\<rparr>,
       handoffs = [''route''], receivers = 1, returned = []\<rparr> =
     Some \<lparr>mon = \<lparr>ctx_done = True, messagec = [\<lparr>eventType = ''addr''\<rparr>],
              addressChangeCallback = None, routeChangeCallback = None,
              noDeadlockTicker = False\<rparr>,
       wld = \<lparr>registered = {}, effects = []\<rparr>,
       handoffs = [], receivers = 1, returned = []\<rparr>
   \<and> step (FinishReceive OnCtxDone)
     \<lparr>mon = \<lparr>ctx_done = True, messagec = [\<lparr>eventType = ''addr''\<rparr>],
              addressChangeCallback = None, routeChangeCallback = None,
              noDeadlockTicker = False\<rparr>,
       wld = \<lparr>registered = {}, effects = []\<rparr>,
       handoffs = [''route''], receivers = 1, returned = []\<rparr> =
     Some \<lparr>mon = \<lparr>ctx_done = True, messagec = [\<lparr>eventType = ''addr''\<rparr>],
              addressChangeCallback = None, routeChangeCallback = None,
              noDeadlockTicker = False\<rparr>,
       wld = \<lparr>registered = {}, effects = []\<rparr>,
       handoffs = [''route''], receivers = 0, returned = [Inl errClosed]\<rparr>"
proof -
  have closed: "ctx_done (mon
     \<lparr>mon = \<lparr>ctx_done = True, messagec = [\<lparr>eventType = ''addr''\<rparr>],
              addressChangeCallback = None, routeChangeCallback = None,
              noDeadlockTicker = False\<rparr>,
       wld = \<lparr>registered = {}, effects = []\<rparr>,
       handoffs = [''route''], receivers = 1, returned = []\<rparr>)"
    by simp
  show ?thesis
    using closed_receive_and_handoff [OF closed, where i = 0]
    by (simp add: emit_def)
qed

subsection \<open>The kind of a message\<close>



end
